theory Spec2Isabelle
  imports Complex_Main
begin

section \<open>Numbers and bracket tables\<close>

text \<open>
  The calculator of \<^verbatim>\<open>newtax.py\<close> works on Python floats. They are embedded as
  exact reals: every constant and every operation below is the one of the source, read
  without rounding. The only non-finite value of the source is \<^verbatim>\<open>float('inf')\<close>, the
  upper bound of the last bracket of both tables; a bound is therefore either finite or
  \<open>Infinity\<close>, and the amounts that are taxed are finite.
\<close>

datatype bound = Fin real | Infinity

type_synonym bracket = "bound \<times> real"

definition PIT_BRACKETS_NEW :: "bracket list" where
  "PIT_BRACKETS_NEW =
     [(Fin 800000, 0.00),
      (Fin 3200000, 0.15),
      (Fin 7200000, 0.25),
      (Fin 12200000, 0.30),
      (Fin 22200000, 0.35),
      (Infinity, 0.40)]"

definition PIT_BRACKETS_OLD :: "bracket list" where
  "PIT_BRACKETS_OLD =
     [(Fin 300000, 0.07),
      (Fin 600000, 0.11),
      (Fin 1100000, 0.15),
      (Fin 1600000, 0.19),
      (Fin 3200000, 0.21),
      (Infinity, 0.24)]"

definition CGT_RATE_NEW :: real where
  "CGT_RATE_NEW = 0.10"

definition CGT_RATE_OLD :: real where
  "CGT_RATE_OLD = 0.05"

definition HOUSING_ALLOWANCE_CAP :: real where
  "HOUSING_ALLOWANCE_CAP = 500000"

section \<open>The bracket engine\<close>

text \<open>\<^verbatim>\<open>min(amount, limit)\<close> for a finite amount: \<^verbatim>\<open>min(amount, inf)\<close> is the amount.\<close>

fun min_bound :: "real \<Rightarrow> bound \<Rightarrow> real" where
  "min_bound amount (Fin l) = min amount l"
| "min_bound amount Infinity = amount"

text \<open>
  The \<^verbatim>\<open>for limit, rate in brackets\<close> loop of \<^verbatim>\<open>calculate_progressive_tax\<close>, with
  its two variables \<^verbatim>\<open>tax\<close> and \<^verbatim>\<open>prev\<close> passed along. \<^verbatim>\<open>amount <= prev\<close> holds for
  every finite amount once \<^verbatim>\<open>prev\<close> is \<^verbatim>\<open>inf\<close>, so the loop breaks there.
\<close>

fun tax_loop :: "real \<Rightarrow> bracket list \<Rightarrow> real \<Rightarrow> bound \<Rightarrow> real" where
  "tax_loop amount [] tax prev = tax"
| "tax_loop amount ((limit, rate) # rest) tax prev =
     (case prev of
        Infinity \<Rightarrow> tax
      | Fin p \<Rightarrow>
          if amount \<le> p then tax
          else tax_loop amount rest (tax + (min_bound amount limit - p) * rate) limit)"

definition calculate_progressive_tax :: "real \<Rightarrow> bracket list \<Rightarrow> real" where
  "calculate_progressive_tax amount brackets = tax_loop amount brackets 0 (Fin 0)"

section \<open>Requests\<close>

text \<open>
  The request body is a JSON object: the discriminator \<^verbatim>\<open>tax_type\<close> (absent, or any
  string) and numeric fields. \<^verbatim>\<open>float(data.get(k, 0))\<close> reads a field, with 0 for a
  missing key.
\<close>

type_synonym fields = "string \<rightharpoonup> real"

record request =
  tax_type :: "string option"
  data :: fields

definition float_get :: "fields \<Rightarrow> string \<Rightarrow> real" where
  "float_get d k = (case d k of None \<Rightarrow> 0 | Some v \<Rightarrow> v)"

section \<open>Personal income tax\<close>

record pit_result =
  law :: string
  gross_income :: real
  cra :: real
  taxable_income :: real
  annual_paye :: real
  monthly_paye :: real
  capital_gains_tax :: real
  total_tax :: real
  net_income :: real
  monthly_take_home :: real
  housing_allowance_capped :: real
  housing_raw :: real
  first_tax_free :: real

definition calculate_pit :: "fields \<Rightarrow> bool \<Rightarrow> pit_result" where
  "calculate_pit d use_old_law =
    (let basic = float_get d ''basic_salary'';
         housing_raw = float_get d ''housing_allowance'';
         housing = (if use_old_law then housing_raw
                    else min housing_raw HOUSING_ALLOWANCE_CAP);
         transport = float_get d ''transport_allowance'';
         others = float_get d ''other_allowances'';
         pension = float_get d ''pension'';
         nhf = float_get d ''nhf'';
         life = float_get d ''life_insurance'';
         capital_gains = float_get d ''capital_gains'';
         digital_assets = float_get d ''digital_assets'';
         gross = basic + housing + transport + others;
         cra = (if use_old_law then (0.01 * gross) + 200000 else (0.20 * gross) + 200000);
         cgt_rate = (if use_old_law then CGT_RATE_OLD else CGT_RATE_NEW);
         brackets = (if use_old_law then PIT_BRACKETS_OLD else PIT_BRACKETS_NEW);
         law_label = (if use_old_law then ''OLD'' else ''NEW'');
         first_tax_free = (if use_old_law then 0 else 800000);
         deductions = pension + nhf + life;
         taxable_income = max 0 (gross - cra - deductions);
         annual_paye = calculate_progressive_tax taxable_income brackets;
         monthly_paye = annual_paye / 12;
         cgt = (capital_gains + digital_assets) * cgt_rate;
         total_tax = annual_paye + cgt;
         net_income = gross + capital_gains + digital_assets - total_tax;
         monthly_take_home = net_income / 12
     in \<lparr> law = law_label,
          gross_income = gross,
          cra = cra,
          taxable_income = taxable_income,
          annual_paye = annual_paye,
          monthly_paye = monthly_paye,
          capital_gains_tax = cgt,
          total_tax = total_tax,
          net_income = net_income,
          monthly_take_home = monthly_take_home,
          housing_allowance_capped = housing,
          housing_raw = housing_raw,
          first_tax_free = first_tax_free \<rparr>)"

section \<open>Company income tax\<close>

record cit_result =
  cit_law :: string
  company_size :: string
  turnover :: real
  profit :: real
  cit_rate :: real
  cit_payable :: real
  net_profit :: real
  monthly_net_profit :: real

text \<open>The \<^verbatim>\<open>if/elif/else\<close> chain that sets \<^verbatim>\<open>rate\<close> and \<^verbatim>\<open>company_size\<close>.\<close>

definition cit_tier :: "bool \<Rightarrow> real \<Rightarrow> real \<times> string" where
  "cit_tier use_old_law t =
    (if use_old_law then
       (if t \<le> 25000000 then (0.0, ''Small Company'')
        else if t \<le> 100000000 then (0.20, ''Medium Company'')
        else (0.30, ''Large Company''))
     else
       (if t \<le> 50000000 then (0.0, ''Small Company'')
        else if t \<le> 150000000 then (0.18, ''Medium Company'')
        else (0.25, ''Large Company'')))"

definition calculate_cit :: "fields \<Rightarrow> bool \<Rightarrow> cit_result" where
  "calculate_cit d use_old_law =
    (let turnover = float_get d ''turnover'';
         profit = float_get d ''profit'';
         (rate, company_size) = cit_tier use_old_law turnover;
         law_label = (if use_old_law then ''OLD'' else ''NEW'');
         cit = profit * rate;
         net_profit = profit - cit;
         monthly_net_profit = net_profit / 12
     in \<lparr> cit_law = law_label,
          company_size = company_size,
          turnover = turnover,
          profit = profit,
          cit_rate = rate * 100,
          cit_payable = cit,
          net_profit = net_profit,
          monthly_net_profit = monthly_net_profit \<rparr>)"

section \<open>The comparator\<close>

record pit_comparison =
  tax_difference :: real
  net_income_difference :: real
  monthly_take_home_difference :: real
  recommendation :: string

record cit_comparison =
  cit_tax_difference :: real
  net_profit_difference :: real
  monthly_profit_difference :: real
  cit_recommendation :: string

datatype response =
    PitResponse pit_result pit_result pit_comparison
  | CitResponse cit_result cit_result cit_comparison

text \<open>
  The errors the interface names. The handler \<^verbatim>\<open>calculate\<close> has no \<^verbatim>\<open>raise\<close> and no
  error response of its own: both of its branches end in \<^verbatim>\<open>return jsonify(...)\<close>.
\<close>

datatype error = InvalidInput | UnknownTaxType

definition calculate :: "request \<Rightarrow> error + response" where
  "calculate req =
    (let d = data req in
     if tax_type req = Some ''PIT'' then
       (let old_result = calculate_pit d True;
            new_result = calculate_pit d False;
            tax_diff = total_tax new_result - total_tax old_result;
            net_diff = net_income new_result - net_income old_result;
            monthly_diff = monthly_take_home new_result - monthly_take_home old_result;
            recommendation = (if net_diff > 0 then ''Better under NEW law''
                              else ''Better under OLD law'')
        in Inr (PitResponse old_result new_result
             \<lparr> tax_difference = tax_diff,
               net_income_difference = net_diff,
               monthly_take_home_difference = monthly_diff,
               recommendation = recommendation \<rparr>))
     else
       (let old_result = calculate_cit d True;
            new_result = calculate_cit d False;
            tax_diff = cit_payable new_result - cit_payable old_result;
            net_diff = net_profit new_result - net_profit old_result;
            monthly_diff = monthly_net_profit new_result - monthly_net_profit old_result;
            recommendation = (if net_diff > 0 then ''Better under NEW law''
                              else ''Better under OLD law'')
        in Inr (CitResponse old_result new_result
             \<lparr> cit_tax_difference = tax_diff,
               net_profit_difference = net_diff,
               monthly_profit_difference = monthly_diff,
               cit_recommendation = recommendation \<rparr>)))"

section \<open>The specification's vocabulary\<close>

text \<open>
  The specification's own wording of the bracket engine, \<open>computeProgressiveTax\<close>:
  iterate the brackets in ascending order with \<open>previousBound\<close> starting at 0; stop as
  soon as \<open>amount \<le> previousBound\<close>; otherwise the slice of the bracket is
  \<open>min(amount, upperBound) - previousBound\<close>, taxed at the bracket's rate, and
  \<open>previousBound\<close> advances to \<open>upperBound\<close>. The result is the sum of the taxed slices.
\<close>

fun slices_tax :: "real \<Rightarrow> bound \<Rightarrow> bracket list \<Rightarrow> real" where
  "slices_tax amount previousBound [] = 0"
| "slices_tax amount previousBound ((upperBound, rate) # rest) =
     (case previousBound of
        Infinity \<Rightarrow> 0
      | Fin p \<Rightarrow>
          if amount \<le> p then 0
          else (min_bound amount upperBound - p) * rate + slices_tax amount upperBound rest)"

definition computeProgressiveTax :: "real \<Rightarrow> bracket list \<Rightarrow> real" where
  "computeProgressiveTax amount brackets = slices_tax amount (Fin 0) brackets"

text \<open>
  A valid bracket table, as the specification's data model has it: strictly increasing
  upper bounds, the last bound unbounded, rates in \<open>[0, 1]\<close>.
\<close>

fun bound_less :: "bound \<Rightarrow> bound \<Rightarrow> bool" where
  "bound_less (Fin a) (Fin b) = (a < b)"
| "bound_less (Fin a) Infinity = True"
| "bound_less Infinity b = False"

fun increasing_bounds :: "bracket list \<Rightarrow> bool" where
  "increasing_bounds [] = True"
| "increasing_bounds [b] = True"
| "increasing_bounds (b1 # b2 # rest) = (bound_less (fst b1) (fst b2) \<and> increasing_bounds (b2 # rest))"

fun rates_in_unit :: "bracket list \<Rightarrow> bool" where
  "rates_in_unit [] = True"
| "rates_in_unit ((l, r) # rest) = (0 \<le> r \<and> r \<le> 1 \<and> rates_in_unit rest)"

definition valid_table :: "bracket list \<Rightarrow> bool" where
  "valid_table brackets =
     (brackets \<noteq> [] \<and> increasing_bounds brackets \<and> fst (last brackets) = Infinity
      \<and> rates_in_unit brackets)"

text \<open>
  The first upper bound is not below 0, the value \<open>previousBound\<close> starts from. The data
  model does not ask for it; both tables of the source have it.
\<close>

fun first_bound_nonneg :: "bracket list \<Rightarrow> bool" where
  "first_bound_nonneg [] = True"
| "first_bound_nonneg ((Fin l, r) # rest) = (0 \<le> l)"
| "first_bound_nonneg ((Infinity, r) # rest) = True"

text \<open>
  The amount exceeds every bound of a list of finite brackets, and the bound the loop
  has reached after them (\<open>p\<close> when there is none).
\<close>

fun exceeds_bounds :: "real \<Rightarrow> bracket list \<Rightarrow> bool" where
  "exceeds_bounds amount [] = True"
| "exceeds_bounds amount ((Fin l, r) # rest) = (l < amount \<and> exceeds_bounds amount rest)"
| "exceeds_bounds amount ((Infinity, r) # rest) = False"

fun last_finite_bound :: "real \<Rightarrow> bracket list \<Rightarrow> real" where
  "last_finite_bound p [] = p"
| "last_finite_bound p ((Fin l, r) # rest) = last_finite_bound l rest"
| "last_finite_bound p ((Infinity, r) # rest) = last_finite_bound p rest"

text \<open>
  Bounds that do not decrease from a starting bound, with rates in \<open>[0, 1]\<close>: the
  form of validity that an induction along the table carries.
\<close>

fun bound_le :: "bound \<Rightarrow> bound \<Rightarrow> bool" where
  "bound_le (Fin a) (Fin b) = (a \<le> b)"
| "bound_le a Infinity = True"
| "bound_le Infinity (Fin b) = False"

fun ascending_from :: "bound \<Rightarrow> bracket list \<Rightarrow> bool" where
  "ascending_from p [] = True"
| "ascending_from p ((l, r) # rest) = (bound_le p l \<and> 0 \<le> r \<and> r \<le> 1 \<and> ascending_from l rest)"

text \<open>
  Reading a response: the \<^verbatim>\<open>tax_difference\<close>, the net difference and the
  \<^verbatim>\<open>recommendation\<close> of its \<^verbatim>\<open>comparison\<close> object.
\<close>

fun comparison_tax_difference :: "response \<Rightarrow> real" where
  "comparison_tax_difference (PitResponse old_result new_result c) = tax_difference c"
| "comparison_tax_difference (CitResponse old_result new_result c) = cit_tax_difference c"

fun comparison_net_difference :: "response \<Rightarrow> real" where
  "comparison_net_difference (PitResponse old_result new_result c) = net_income_difference c"
| "comparison_net_difference (CitResponse old_result new_result c) = net_profit_difference c"

fun comparison_recommendation :: "response \<Rightarrow> string" where
  "comparison_recommendation (PitResponse old_result new_result c) = recommendation c"
| "comparison_recommendation (CitResponse old_result new_result c) = cit_recommendation c"

section \<open>The loop and the sum of slices\<close>

lemma tax_loop_slices: "tax_loop amount brackets tax prev = tax + slices_tax amount prev brackets"
  by (induction brackets arbitrary: tax prev) (auto split: bound.splits)

lemma slices_tax_Infinity [simp]: "slices_tax amount Infinity brackets = 0"
  by (cases brackets) auto

lemma increasing_ascending:
  "increasing_bounds ((l, r) # rest) \<Longrightarrow> rates_in_unit ((l, r) # rest) \<Longrightarrow> bound_le p l
    \<Longrightarrow> ascending_from p ((l, r) # rest)"
proof (induction rest arbitrary: l r p)
  case Nil
  then show ?case by simp
next
  case (Cons b rest)
  obtain l' r' where b: "b = (l', r')" by (cases b)
  from Cons.prems have "bound_less l l'" by (simp add: b)
  then have "bound_le l l'" by (cases l; cases l') auto
  with Cons.prems Cons.IH[of l' r' l] show ?case by (simp add: b)
qed

lemma valid_ascending:
  "valid_table brackets \<Longrightarrow> first_bound_nonneg brackets \<Longrightarrow> ascending_from (Fin 0) brackets"
proof (cases brackets)
  case Nil
  then show ?thesis by simp
next
  case (Cons b rest)
  assume v: "valid_table brackets" and f: "first_bound_nonneg brackets"
  obtain l r where b: "b = (l, r)" by (cases b)
  from f have "bound_le (Fin 0) l" unfolding Cons b by (cases l) auto
  with v show ?thesis unfolding Cons b valid_table_def
    by (intro increasing_ascending) auto
qed

lemma slices_tax_nonneg: "ascending_from p brackets \<Longrightarrow> 0 \<le> slices_tax amount p brackets"
proof (induction brackets arbitrary: p)
  case Nil
  then show ?case by simp
next
  case (Cons b rest)
  obtain l r where b: "b = (l, r)" by (cases b)
  show ?case
  proof (cases p)
    case Infinity
    then show ?thesis by simp
  next
    case (Fin q)
    from Cons.prems have le: "bound_le (Fin q) l" and r: "0 \<le> r" and asc: "ascending_from l rest"
      by (simp_all add: b Fin)
    have rest: "0 \<le> slices_tax amount l rest" using Cons.IH[OF asc] .
    show ?thesis
    proof (cases "amount \<le> q")
      case True
      then show ?thesis by (simp add: b Fin)
    next
      case False
      with le have "0 \<le> min_bound amount l - q" by (cases l) auto
      with r have "0 \<le> (min_bound amount l - q) * r" by simp
      with rest False show ?thesis by (simp add: b Fin)
    qed
  qed
qed

lemma slices_tax_mono:
  "ascending_from p brackets \<Longrightarrow> a \<le> b \<Longrightarrow> slices_tax a p brackets \<le> slices_tax b p brackets"
proof (induction brackets arbitrary: p)
  case Nil
  then show ?case by simp
next
  case (Cons x rest)
  obtain l r where x: "x = (l, r)" by (cases x)
  show ?case
  proof (cases p)
    case Infinity
    then show ?thesis by simp
  next
    case (Fin q)
    from Cons.prems have le: "bound_le (Fin q) l" and r: "0 \<le> r" and asc: "ascending_from l rest"
      by (simp_all add: x Fin)
    have rest: "slices_tax a l rest \<le> slices_tax b l rest" using Cons.IH[OF asc \<open>a \<le> b\<close>] .
    show ?thesis
    proof (cases "a \<le> q")
      case True
      have "0 \<le> slices_tax b p (x # rest)" using Cons.prems(1) by (rule slices_tax_nonneg)
      with True show ?thesis by (simp add: x Fin)
    next
      case False
      with \<open>a \<le> b\<close> have nb: "\<not> b \<le> q" by simp
      from \<open>a \<le> b\<close> have "min_bound a l - q \<le> min_bound b l - q" by (cases l) auto
      with r have "(min_bound a l - q) * r \<le> (min_bound b l - q) * r"
        by (simp add: mult_right_mono)
      with rest False nb show ?thesis by (simp add: x Fin)
    qed
  qed
qed

lemma slices_tax_le:
  "ascending_from (Fin p) brackets \<Longrightarrow> p \<le> a \<Longrightarrow> slices_tax a (Fin p) brackets \<le> a - p"
proof (induction brackets arbitrary: p)
  case Nil
  then show ?case by simp
next
  case (Cons x rest)
  obtain l r where x: "x = (l, r)" by (cases x)
  from Cons.prems have le: "bound_le (Fin p) l" and r: "0 \<le> r" "r \<le> 1"
    and asc: "ascending_from l rest"
    by (simp_all add: x)
  show ?case
  proof (cases "a \<le> p")
    case True
    with Cons.prems show ?thesis by (simp add: x)
  next
    case False
    show ?thesis
    proof (cases l)
      case Infinity
      from False r have "(a - p) * r \<le> (a - p) * 1" by (intro mult_left_mono) auto
      with False show ?thesis by (simp add: x Infinity)
    next
      case (Fin u)
      from le have pu: "p \<le> u" by (simp add: Fin)
      show ?thesis
      proof (cases "a \<le> u")
        case True
        from False r have "(a - p) * r \<le> (a - p) * 1" by (intro mult_left_mono) auto
        moreover have "slices_tax a (Fin u) rest = 0" using True by (cases rest) auto
        ultimately show ?thesis using False True by (simp add: x Fin)
      next
        case au: False
        from pu r have "(u - p) * r \<le> (u - p) * 1" by (intro mult_left_mono) auto
        moreover have "slices_tax a (Fin u) rest \<le> a - u"
          using Cons.IH[of u] asc au by (simp add: Fin)
        ultimately show ?thesis using False au by (simp add: x Fin)
      qed
    qed
  qed
qed

lemma slices_tax_final:
  "exceeds_bounds amount fs \<Longrightarrow> p < amount \<Longrightarrow>
   slices_tax amount (Fin p) (fs @ [(Infinity, r)]) =
     slices_tax amount (Fin p) fs + (amount - last_finite_bound p fs) * r"
proof (induction fs arbitrary: p)
  case Nil
  then show ?case by simp
next
  case (Cons x rest)
  obtain l q where x: "x = (l, q)" by (cases x)
  from Cons.prems obtain u where l: "l = Fin u" and u: "u < amount" and ex: "exceeds_bounds amount rest"
    by (cases l) (auto simp: x)
  from Cons.IH[OF ex u] Cons.prems(2) show ?case by (simp add: x l)
qed

lemma progressive_tax_le_amount:
  "valid_table brackets \<Longrightarrow> first_bound_nonneg brackets \<Longrightarrow> 0 \<le> amount
    \<Longrightarrow> calculate_progressive_tax amount brackets \<le> amount"
  using slices_tax_le[of 0 brackets amount] valid_ascending[of brackets]
  by (simp add: calculate_progressive_tax_def tax_loop_slices)

section \<open>Fields of the results\<close>

text \<open>
  Each field of a result, read off the body of \<^verbatim>\<open>calculate_pit\<close> and
  \<^verbatim>\<open>calculate_cit\<close>.
\<close>

lemma pit_housing:
  "housing_allowance_capped (calculate_pit d use_old_law) =
     (if use_old_law then float_get d ''housing_allowance''
      else min (float_get d ''housing_allowance'') HOUSING_ALLOWANCE_CAP)"
  unfolding calculate_pit_def Let_def by (simp only: pit_result.select_convs)

lemma pit_housing_raw:
  "housing_raw (calculate_pit d use_old_law) = float_get d ''housing_allowance''"
  unfolding calculate_pit_def Let_def by (simp only: pit_result.select_convs)

lemma pit_gross:
  "gross_income (calculate_pit d use_old_law) =
     float_get d ''basic_salary'' + housing_allowance_capped (calculate_pit d use_old_law)
     + float_get d ''transport_allowance'' + float_get d ''other_allowances''"
  unfolding calculate_pit_def Let_def by (simp only: pit_result.select_convs)

lemma pit_cra:
  "cra (calculate_pit d use_old_law) =
     (if use_old_law then 0.01 * gross_income (calculate_pit d use_old_law) + 200000
      else 0.20 * gross_income (calculate_pit d use_old_law) + 200000)"
  unfolding calculate_pit_def Let_def by (simp only: pit_result.select_convs)

lemma pit_taxable:
  "taxable_income (calculate_pit d use_old_law) =
     max 0 (gross_income (calculate_pit d use_old_law) - cra (calculate_pit d use_old_law)
            - (float_get d ''pension'' + float_get d ''nhf'' + float_get d ''life_insurance''))"
  unfolding calculate_pit_def Let_def by (simp only: pit_result.select_convs)

lemma pit_paye:
  "annual_paye (calculate_pit d use_old_law) =
     calculate_progressive_tax (taxable_income (calculate_pit d use_old_law))
       (if use_old_law then PIT_BRACKETS_OLD else PIT_BRACKETS_NEW)"
  unfolding calculate_pit_def Let_def by (simp only: pit_result.select_convs)

lemma pit_cgt:
  "capital_gains_tax (calculate_pit d use_old_law) =
     (float_get d ''capital_gains'' + float_get d ''digital_assets'')
     * (if use_old_law then CGT_RATE_OLD else CGT_RATE_NEW)"
  unfolding calculate_pit_def Let_def by (simp only: pit_result.select_convs)

lemma pit_total:
  "total_tax (calculate_pit d use_old_law) =
     annual_paye (calculate_pit d use_old_law) + capital_gains_tax (calculate_pit d use_old_law)"
  unfolding calculate_pit_def Let_def by (simp only: pit_result.select_convs)

lemma pit_net:
  "net_income (calculate_pit d use_old_law) =
     gross_income (calculate_pit d use_old_law) + float_get d ''capital_gains''
     + float_get d ''digital_assets'' - total_tax (calculate_pit d use_old_law)"
  unfolding calculate_pit_def Let_def by (simp only: pit_result.select_convs)

lemma pit_monthly:
  "monthly_paye (calculate_pit d use_old_law) = annual_paye (calculate_pit d use_old_law) / 12"
  "monthly_take_home (calculate_pit d use_old_law) = net_income (calculate_pit d use_old_law) / 12"
  unfolding calculate_pit_def Let_def by (simp_all only: pit_result.select_convs)

lemma float_get_upd:
  "float_get (d(k \<mapsto> v)) k' = (if k' = k then v else float_get d k')"
  by (simp add: float_get_def)

lemma float_get_empty: "float_get Map.empty k = 0"
  by (simp add: float_get_def)

lemma cit_payable_eq:
  "cit_payable (calculate_cit d use_old_law) =
     float_get d ''profit'' * fst (cit_tier use_old_law (float_get d ''turnover''))"
  unfolding calculate_cit_def Let_def case_prod_beta by (simp only: cit_result.select_convs)

lemma cit_rate_eq:
  "cit_rate (calculate_cit d use_old_law) =
     fst (cit_tier use_old_law (float_get d ''turnover'')) * 100"
  unfolding calculate_cit_def Let_def case_prod_beta by (simp only: cit_result.select_convs)

lemma company_size_eq:
  "company_size (calculate_cit d use_old_law) =
     snd (cit_tier use_old_law (float_get d ''turnover''))"
  unfolding calculate_cit_def Let_def case_prod_beta by (simp only: cit_result.select_convs)

lemma net_profit_eq:
  "net_profit (calculate_cit d use_old_law) =
     float_get d ''profit'' - cit_payable (calculate_cit d use_old_law)"
  unfolding calculate_cit_def Let_def case_prod_beta by (simp only: cit_result.select_convs)

lemma monthly_net_profit_eq:
  "monthly_net_profit (calculate_cit d use_old_law) = net_profit (calculate_cit d use_old_law) / 12"
  unfolding calculate_cit_def Let_def case_prod_beta by (simp only: cit_result.select_convs)

lemmas cit_fields = cit_payable_eq cit_rate_eq company_size_eq net_profit_eq monthly_net_profit_eq

lemma calculate_pit_request:
  "tax_type req = Some ''PIT'' \<Longrightarrow>
   calculate req =
     Inr (PitResponse (calculate_pit (data req) True) (calculate_pit (data req) False)
       \<lparr> tax_difference =
           total_tax (calculate_pit (data req) False) - total_tax (calculate_pit (data req) True),
         net_income_difference =
           net_income (calculate_pit (data req) False) - net_income (calculate_pit (data req) True),
         monthly_take_home_difference =
           monthly_take_home (calculate_pit (data req) False)
           - monthly_take_home (calculate_pit (data req) True),
         recommendation =
           (if net_income (calculate_pit (data req) False) - net_income (calculate_pit (data req) True) > 0
            then ''Better under NEW law'' else ''Better under OLD law'') \<rparr>)"
  by (simp add: calculate_def Let_def)

lemma calculate_other_request:
  "tax_type req \<noteq> Some ''PIT'' \<Longrightarrow>
   calculate req =
     Inr (CitResponse (calculate_cit (data req) True) (calculate_cit (data req) False)
       \<lparr> cit_tax_difference =
           cit_payable (calculate_cit (data req) False) - cit_payable (calculate_cit (data req) True),
         net_profit_difference =
           net_profit (calculate_cit (data req) False) - net_profit (calculate_cit (data req) True),
         monthly_profit_difference =
           monthly_net_profit (calculate_cit (data req) False)
           - monthly_net_profit (calculate_cit (data req) True),
         cit_recommendation =
           (if net_profit (calculate_cit (data req) False) - net_profit (calculate_cit (data req) True) > 0
            then ''Better under NEW law'' else ''Better under OLD law'') \<rparr>)"
  by (simp add: calculate_def Let_def)

lemma calculate_returns: "\<exists>resp. calculate req = Inr resp"
  by (cases "tax_type req = Some ''PIT''") (simp_all add: calculate_pit_request calculate_other_request)

lemma recommendation_strict:
  assumes "calculate req = Inr resp"
  shows "comparison_recommendation resp =
           (if comparison_net_difference resp > 0 then ''Better under NEW law''
            else ''Better under OLD law'')"
proof (cases "tax_type req = Some ''PIT''")
  case True
  from assms show ?thesis unfolding calculate_pit_request[OF True] by auto
next
  case False
  from assms show ?thesis unfolding calculate_other_request[OF False] by auto
qed

section \<open>The bracket engine: claims C1, C9 and C10\<close>

text \<open>
  Claim C1, as the code has it. For every amount and every bracket table,
  \<^verbatim>\<open>calculate_progressive_tax\<close> is the iteration the specification describes:
  \<open>previousBound\<close> starts at 0, the iteration stops as soon as
  \<open>amount \<le> previousBound\<close>, and otherwise it accumulates
  \<open>(min(amount, upperBound) - previousBound) * rate\<close> and advances \<open>previousBound\<close> to
  \<open>upperBound\<close>. It returns 0 when the amount is 0. When the amount is above 0 and
  exceeds every finite bound \<open>fs\<close> of a table \<open>fs @ [(Infinity, r)]\<close>, the final
  unbounded bracket contributes \<open>(amount - lastFiniteBound) * r\<close>, where the last
  finite bound is 0 for a table without finite brackets.
\<close>

theorem progressive_tax_algorithm:
  "calculate_progressive_tax amount brackets = computeProgressiveTax amount brackets
   \<and> calculate_progressive_tax 0 brackets = 0
   \<and> (0 < amount \<longrightarrow> exceeds_bounds amount fs \<longrightarrow>
        calculate_progressive_tax amount (fs @ [(Infinity, r)]) =
          calculate_progressive_tax amount fs + (amount - last_finite_bound 0 fs) * r)"
proof (intro conjI impI)
  show "calculate_progressive_tax amount brackets = computeProgressiveTax amount brackets"
    by (simp add: calculate_progressive_tax_def computeProgressiveTax_def tax_loop_slices)
  show "calculate_progressive_tax 0 brackets = 0"
    by (cases brackets) (auto simp: calculate_progressive_tax_def)
  assume "0 < amount" "exceeds_bounds amount fs"
  then show "calculate_progressive_tax amount (fs @ [(Infinity, r)]) =
          calculate_progressive_tax amount fs + (amount - last_finite_bound 0 fs) * r"
    by (simp add: calculate_progressive_tax_def tax_loop_slices slices_tax_final)
qed

text \<open>
  The NEW table at 30,000,000: the five finite brackets give 6,360,000 and the last
  bracket \<open>(30,000,000 - 22,200,000) * 0.40\<close>.
\<close>

theorem progressive_tax_algorithm_witness:
  "calculate_progressive_tax 30000000 PIT_BRACKETS_NEW = computeProgressiveTax 30000000 PIT_BRACKETS_NEW
   \<and> calculate_progressive_tax 0 PIT_BRACKETS_NEW = 0
   \<and> (0::real) < 30000000
   \<and> exceeds_bounds 30000000 (butlast PIT_BRACKETS_NEW)
   \<and> valid_table PIT_BRACKETS_NEW
   \<and> calculate_progressive_tax 30000000 PIT_BRACKETS_NEW =
        calculate_progressive_tax 30000000 (butlast PIT_BRACKETS_NEW) + (30000000 - 22200000) * 0.40
   \<and> calculate_progressive_tax 30000000 PIT_BRACKETS_NEW = 9480000"
  using progressive_tax_algorithm[of 30000000 PIT_BRACKETS_NEW "butlast PIT_BRACKETS_NEW" "0.40"]
  by (simp add: PIT_BRACKETS_NEW_def valid_table_def calculate_progressive_tax_def)

text \<open>
  Claim C1 asks for amounts from 0 on and for tables with strictly increasing bounds,
  an unbounded last bound and rates in \<open>[0, 1]\<close>. The table below is one, with a
  first bound below 0. The amount 0 exceeds its only finite bound, yet the loop breaks
  at the first bracket (\<open>0 \<le> previousBound = 0\<close>), and the final bracket contributes
  nothing instead of \<open>(0 - (- 4)) * (1 / 4)\<close>.
\<close>

theorem final_bracket_counterexample:
  "valid_table [(Fin (- 4), 1 / 2), (Infinity, 1 / 4)]
   \<and> (0::real) \<le> 0
   \<and> exceeds_bounds 0 [(Fin (- 4), 1 / 2)]
   \<and> last_finite_bound 0 [(Fin (- 4), 1 / 2)] = - 4
   \<and> calculate_progressive_tax 0 [(Fin (- 4), 1 / 2), (Infinity, 1 / 4)] = 0
   \<and> calculate_progressive_tax 0 [(Fin (- 4), 1 / 2), (Infinity, 1 / 4)] \<noteq>
        calculate_progressive_tax 0 [(Fin (- 4), 1 / 2)] + (0 - (- 4)) * (1 / 4)"
  by (simp add: valid_table_def calculate_progressive_tax_def)

text \<open>
  Claim C9, as the code has it. For every valid bracket table whose first upper bound
  is not below 0, and every pair of amounts \<open>0 \<le> a \<le> b\<close>, the progressive tax of
  \<open>a\<close> is at most the progressive tax of \<open>b\<close>.
\<close>

theorem progressive_tax_monotone:
  assumes "valid_table brackets" and "first_bound_nonneg brackets"
    and "0 \<le> a" and "a \<le> b"
  shows "calculate_progressive_tax a brackets \<le> calculate_progressive_tax b brackets"
  using slices_tax_mono[OF valid_ascending[OF assms(1,2)] assms(4)]
  by (simp add: calculate_progressive_tax_def tax_loop_slices)

theorem progressive_tax_monotone_witness:
  "valid_table PIT_BRACKETS_OLD \<and> first_bound_nonneg PIT_BRACKETS_OLD
   \<and> (0::real) \<le> 250000 \<and> (250000::real) \<le> 400000
   \<and> calculate_progressive_tax 250000 PIT_BRACKETS_OLD = 17500
   \<and> calculate_progressive_tax 400000 PIT_BRACKETS_OLD = 32000
   \<and> calculate_progressive_tax 250000 PIT_BRACKETS_OLD
        \<le> calculate_progressive_tax 400000 PIT_BRACKETS_OLD"
proof -
  have v: "valid_table PIT_BRACKETS_OLD" and f: "first_bound_nonneg PIT_BRACKETS_OLD"
    by (simp_all add: PIT_BRACKETS_OLD_def valid_table_def)
  have "calculate_progressive_tax 250000 PIT_BRACKETS_OLD
        \<le> calculate_progressive_tax 400000 PIT_BRACKETS_OLD"
    by (rule progressive_tax_monotone[OF v f]) simp_all
  moreover have "calculate_progressive_tax 250000 PIT_BRACKETS_OLD = 17500"
    "calculate_progressive_tax 400000 PIT_BRACKETS_OLD = 32000"
    by (simp_all add: PIT_BRACKETS_OLD_def calculate_progressive_tax_def)
  ultimately show ?thesis using v f by simp
qed

text \<open>
  Without the condition on the first bound the tax is not monotone: on the valid table
  below the amount 0 is taxed 0 and the amount 1 is taxed \<open>- 4 * (1 / 2) + 5 * (1 / 4)\<close>.
\<close>

theorem monotone_counterexample:
  "valid_table [(Fin (- 4), 1 / 2), (Infinity, 1 / 4)]
   \<and> (0::real) \<le> 0 \<and> (0::real) \<le> 1
   \<and> calculate_progressive_tax 0 [(Fin (- 4), 1 / 2), (Infinity, 1 / 4)] = 0
   \<and> calculate_progressive_tax 1 [(Fin (- 4), 1 / 2), (Infinity, 1 / 4)] = - (3 / 4)
   \<and> \<not> calculate_progressive_tax 0 [(Fin (- 4), 1 / 2), (Infinity, 1 / 4)]
        \<le> calculate_progressive_tax 1 [(Fin (- 4), 1 / 2), (Infinity, 1 / 4)]"
  by (simp add: valid_table_def calculate_progressive_tax_def)

text \<open>
  Claim C10. For every amount from 0 on, the progressive tax under the OLD table and
  under the NEW table is at most the amount; so the annual PAYE of a
  \<^verbatim>\<open>calculate_pit\<close> result never exceeds its taxable income.
\<close>

theorem paye_at_most_taxable:
  "(0 \<le> amount \<longrightarrow>
      calculate_progressive_tax amount PIT_BRACKETS_OLD \<le> amount
      \<and> calculate_progressive_tax amount PIT_BRACKETS_NEW \<le> amount)
   \<and> annual_paye (calculate_pit d use_old_law) \<le> taxable_income (calculate_pit d use_old_law)"
proof -
  have old: "valid_table PIT_BRACKETS_OLD" "first_bound_nonneg PIT_BRACKETS_OLD"
    by (simp_all add: PIT_BRACKETS_OLD_def valid_table_def)
  have new: "valid_table PIT_BRACKETS_NEW" "first_bound_nonneg PIT_BRACKETS_NEW"
    by (simp_all add: PIT_BRACKETS_NEW_def valid_table_def)
  have le: "calculate_progressive_tax x PIT_BRACKETS_OLD \<le> x"
    "calculate_progressive_tax x PIT_BRACKETS_NEW \<le> x" if "0 \<le> x" for x
    using that progressive_tax_le_amount[OF old] progressive_tax_le_amount[OF new] by simp_all
  have "0 \<le> taxable_income (calculate_pit d use_old_law)"
    by (simp add: pit_taxable)
  then have "annual_paye (calculate_pit d use_old_law) \<le> taxable_income (calculate_pit d use_old_law)"
    by (cases use_old_law) (simp_all add: pit_paye le)
  with le show ?thesis by simp
qed

theorem paye_at_most_taxable_witness:
  "(0::real) \<le> 1000000
   \<and> calculate_progressive_tax 1000000 PIT_BRACKETS_OLD = 114000
   \<and> calculate_progressive_tax 1000000 PIT_BRACKETS_NEW = 30000
   \<and> calculate_progressive_tax 1000000 PIT_BRACKETS_OLD \<le> 1000000
   \<and> calculate_progressive_tax 1000000 PIT_BRACKETS_NEW \<le> 1000000
   \<and> annual_paye (calculate_pit [''basic_salary'' \<mapsto> 1000000, ''housing_allowance'' \<mapsto> 600000] False)
        \<le> taxable_income (calculate_pit [''basic_salary'' \<mapsto> 1000000, ''housing_allowance'' \<mapsto> 600000] False)"
  using paye_at_most_taxable[of 1000000
      "[''basic_salary'' \<mapsto> 1000000, ''housing_allowance'' \<mapsto> 600000]" False]
  by (simp add: PIT_BRACKETS_OLD_def PIT_BRACKETS_NEW_def calculate_progressive_tax_def)

section \<open>Personal income tax: claims C2, C5 and C6\<close>

text \<open>
  Claim C2. Under either regime the gross income is basic salary + effective housing +
  transport + other allowances; the relief is \<open>0.01 * gross + 200,000\<close> under OLD and
  \<open>0.20 * gross + 200,000\<close> under NEW; the deductions are pension + NHF + life
  insurance; the taxable income is \<open>max(0, gross - relief - deductions)\<close> and is never
  negative. Capital gains and digital-asset gains do not enter the gross income: setting
  them to any values leaves it unchanged. A field that is absent counts as 0
  (\<open>float_get\<close>).
\<close>

theorem pit_taxable_income:
  "gross_income (calculate_pit d use_old_law) =
      float_get d ''basic_salary'' + housing_allowance_capped (calculate_pit d use_old_law)
      + float_get d ''transport_allowance'' + float_get d ''other_allowances''
   \<and> cra (calculate_pit d True) = 0.01 * gross_income (calculate_pit d True) + 200000
   \<and> cra (calculate_pit d False) = 0.20 * gross_income (calculate_pit d False) + 200000
   \<and> taxable_income (calculate_pit d use_old_law) =
        max 0 (gross_income (calculate_pit d use_old_law) - cra (calculate_pit d use_old_law)
                - (float_get d ''pension'' + float_get d ''nhf'' + float_get d ''life_insurance''))
   \<and> 0 \<le> taxable_income (calculate_pit d use_old_law)
   \<and> gross_income (calculate_pit (d(''capital_gains'' \<mapsto> g, ''digital_assets'' \<mapsto> a)) use_old_law)
        = gross_income (calculate_pit d use_old_law)"
proof (intro conjI)
  show "gross_income (calculate_pit d use_old_law) =
      float_get d ''basic_salary'' + housing_allowance_capped (calculate_pit d use_old_law)
      + float_get d ''transport_allowance'' + float_get d ''other_allowances''"
    by (rule pit_gross)
  show "cra (calculate_pit d True) = 0.01 * gross_income (calculate_pit d True) + 200000"
    by (simp only: pit_cra if_True)
  show "cra (calculate_pit d False) = 0.20 * gross_income (calculate_pit d False) + 200000"
    by (simp only: pit_cra if_False)
  show "taxable_income (calculate_pit d use_old_law) =
        max 0 (gross_income (calculate_pit d use_old_law) - cra (calculate_pit d use_old_law)
                - (float_get d ''pension'' + float_get d ''nhf'' + float_get d ''life_insurance''))"
    by (rule pit_taxable)
  show "0 \<le> taxable_income (calculate_pit d use_old_law)"
    by (simp add: pit_taxable)
  show "gross_income (calculate_pit (d(''capital_gains'' \<mapsto> g, ''digital_assets'' \<mapsto> a)) use_old_law)
        = gross_income (calculate_pit d use_old_law)"
    by (simp add: pit_gross pit_housing float_get_upd)
qed

theorem pit_taxable_income_witness:
  "gross_income (calculate_pit [''basic_salary'' \<mapsto> 1000000, ''housing_allowance'' \<mapsto> 600000] False) = 1500000
   \<and> cra (calculate_pit [''basic_salary'' \<mapsto> 1000000, ''housing_allowance'' \<mapsto> 600000] False) = 500000
   \<and> taxable_income (calculate_pit [''basic_salary'' \<mapsto> 1000000, ''housing_allowance'' \<mapsto> 600000] False) = 1000000
   \<and> taxable_income (calculate_pit [''basic_salary'' \<mapsto> 100000, ''pension'' \<mapsto> 50000] True) = 0"
  using pit_taxable_income[of "[''basic_salary'' \<mapsto> 1000000, ''housing_allowance'' \<mapsto> 600000]" False]
    pit_taxable_income[of "[''basic_salary'' \<mapsto> 100000, ''pension'' \<mapsto> 50000]" True]
  by (simp add: pit_housing HOUSING_ALLOWANCE_CAP_def float_get_upd float_get_empty)

text \<open>
  Claim C5. Under NEW the effective housing allowance, which the result reports and the
  gross income uses, is \<open>min(h, 500,000)\<close> and so never exceeds 500,000; under OLD
  it is the raw input \<open>h\<close>. The raw input is reported under either regime.
\<close>

theorem housing_allowance_cap:
  "housing_allowance_capped (calculate_pit d False) = min (float_get d ''housing_allowance'') 500000
   \<and> housing_allowance_capped (calculate_pit d False) \<le> 500000
   \<and> housing_allowance_capped (calculate_pit d True) = float_get d ''housing_allowance''
   \<and> housing_raw (calculate_pit d use_old_law) = float_get d ''housing_allowance''
   \<and> gross_income (calculate_pit d use_old_law) =
        float_get d ''basic_salary'' + housing_allowance_capped (calculate_pit d use_old_law)
        + float_get d ''transport_allowance'' + float_get d ''other_allowances''"
  using pit_gross[of d use_old_law]
  by (simp add: pit_housing pit_housing_raw HOUSING_ALLOWANCE_CAP_def)

theorem housing_allowance_cap_witness:
  "housing_allowance_capped (calculate_pit [''basic_salary'' \<mapsto> 1000000, ''housing_allowance'' \<mapsto> 600000] False) = 500000
   \<and> housing_allowance_capped (calculate_pit [''basic_salary'' \<mapsto> 1000000, ''housing_allowance'' \<mapsto> 600000] True) = 600000
   \<and> gross_income (calculate_pit [''basic_salary'' \<mapsto> 1000000, ''housing_allowance'' \<mapsto> 600000] False) = 1500000
   \<and> gross_income (calculate_pit [''basic_salary'' \<mapsto> 1000000, ''housing_allowance'' \<mapsto> 600000] True) = 1600000"
  using housing_allowance_cap[of "[''basic_salary'' \<mapsto> 1000000, ''housing_allowance'' \<mapsto> 600000]" False]
    housing_allowance_cap[of "[''basic_salary'' \<mapsto> 1000000, ''housing_allowance'' \<mapsto> 600000]" True]
  by (simp add: float_get_upd float_get_empty)

text \<open>
  Claim C6. The capital-gains tax is \<open>(capitalGains + digitalAssetGains)\<close> times
  5% under OLD and 10% under NEW. The gains reach neither the taxable income nor the
  bracket engine: setting them to any values leaves the taxable income and the annual
  PAYE unchanged. The total tax is annual PAYE + capital-gains tax, and the net income is
  gross income + capital gains + digital-asset gains - total tax.
\<close>

theorem capital_gains_tax_flat:
  "capital_gains_tax (calculate_pit d True) =
      (float_get d ''capital_gains'' + float_get d ''digital_assets'') * 0.05
   \<and> capital_gains_tax (calculate_pit d False) =
      (float_get d ''capital_gains'' + float_get d ''digital_assets'') * 0.10
   \<and> taxable_income (calculate_pit (d(''capital_gains'' \<mapsto> g, ''digital_assets'' \<mapsto> a)) use_old_law)
        = taxable_income (calculate_pit d use_old_law)
   \<and> annual_paye (calculate_pit (d(''capital_gains'' \<mapsto> g, ''digital_assets'' \<mapsto> a)) use_old_law)
        = annual_paye (calculate_pit d use_old_law)
   \<and> total_tax (calculate_pit d use_old_law) =
        annual_paye (calculate_pit d use_old_law) + capital_gains_tax (calculate_pit d use_old_law)
   \<and> net_income (calculate_pit d use_old_law) =
        gross_income (calculate_pit d use_old_law) + float_get d ''capital_gains''
        + float_get d ''digital_assets'' - total_tax (calculate_pit d use_old_law)"
proof -
  have t: "taxable_income (calculate_pit (d(''capital_gains'' \<mapsto> g, ''digital_assets'' \<mapsto> a)) use_old_law)
        = taxable_income (calculate_pit d use_old_law)"
    by (simp only: pit_taxable pit_cra pit_gross pit_housing float_get_upd) simp
  have "annual_paye (calculate_pit (d(''capital_gains'' \<mapsto> g, ''digital_assets'' \<mapsto> a)) use_old_law)
        = annual_paye (calculate_pit d use_old_law)"
    by (simp only: pit_paye t)
  with t show ?thesis
    using pit_total[of d use_old_law] pit_net[of d use_old_law]
    by (simp add: pit_cgt CGT_RATE_OLD_def CGT_RATE_NEW_def)
qed

theorem capital_gains_tax_flat_witness:
  "capital_gains_tax (calculate_pit [''basic_salary'' \<mapsto> 1500000, ''capital_gains'' \<mapsto> 100000, ''digital_assets'' \<mapsto> 50000] True) = 7500
   \<and> capital_gains_tax (calculate_pit [''basic_salary'' \<mapsto> 1500000, ''capital_gains'' \<mapsto> 100000, ''digital_assets'' \<mapsto> 50000] False) = 15000
   \<and> total_tax (calculate_pit [''basic_salary'' \<mapsto> 1500000, ''capital_gains'' \<mapsto> 100000, ''digital_assets'' \<mapsto> 50000] False) = 45000
   \<and> net_income (calculate_pit [''basic_salary'' \<mapsto> 1500000, ''capital_gains'' \<mapsto> 100000, ''digital_assets'' \<mapsto> 50000] False) = 1605000"
proof -
  let ?d = "[''basic_salary'' \<mapsto> 1500000, ''capital_gains'' \<mapsto> 100000, ''digital_assets'' \<mapsto> (50000::real)]"
  have g: "gross_income (calculate_pit ?d False) = 1500000"
    by (simp add: pit_gross pit_housing HOUSING_ALLOWANCE_CAP_def float_get_upd float_get_empty)
  have t: "taxable_income (calculate_pit ?d False) = 1000000"
    by (simp add: pit_taxable pit_cra g float_get_upd float_get_empty)
  have p: "annual_paye (calculate_pit ?d False) = 30000"
    by (simp add: pit_paye t PIT_BRACKETS_NEW_def calculate_progressive_tax_def)
  show ?thesis
    using capital_gains_tax_flat[of ?d _ _ False] capital_gains_tax_flat[of ?d _ _ True]
    by (simp add: g p float_get_upd float_get_empty)
qed

section \<open>Company income tax: claims C3 and C8\<close>

text \<open>
  Claim C3. The tier and the rate follow the turnover by thresholds with inclusive upper
  bounds. OLD: up to 25,000,000 Small at 0%, up to 100,000,000 Medium at 20%, above
  Large at 30%. NEW: up to 50,000,000 Small at 0%, up to 150,000,000 Medium at 18%,
  above Large at 25%. The reported \<^verbatim>\<open>cit_rate\<close> is the percentage, and the tax
  payable is the profit times the rate. A turnover exactly at a threshold is in the
  lower tier.
\<close>

theorem cit_tier_lookup:
  "cit_rate (calculate_cit d True) =
      (if float_get d ''turnover'' \<le> 25000000 then 0
       else if float_get d ''turnover'' \<le> 100000000 then 20 else 30)
   \<and> company_size (calculate_cit d True) =
      (if float_get d ''turnover'' \<le> 25000000 then ''Small Company''
       else if float_get d ''turnover'' \<le> 100000000 then ''Medium Company'' else ''Large Company'')
   \<and> cit_payable (calculate_cit d True) =
      (if float_get d ''turnover'' \<le> 25000000 then float_get d ''profit'' * 0
       else if float_get d ''turnover'' \<le> 100000000 then float_get d ''profit'' * 0.20
       else float_get d ''profit'' * 0.30)
   \<and> cit_rate (calculate_cit d False) =
      (if float_get d ''turnover'' \<le> 50000000 then 0
       else if float_get d ''turnover'' \<le> 150000000 then 18 else 25)
   \<and> company_size (calculate_cit d False) =
      (if float_get d ''turnover'' \<le> 50000000 then ''Small Company''
       else if float_get d ''turnover'' \<le> 150000000 then ''Medium Company'' else ''Large Company'')
   \<and> cit_payable (calculate_cit d False) =
      (if float_get d ''turnover'' \<le> 50000000 then float_get d ''profit'' * 0
       else if float_get d ''turnover'' \<le> 150000000 then float_get d ''profit'' * 0.18
       else float_get d ''profit'' * 0.25)"
  by (simp add: cit_fields cit_tier_def)

theorem cit_tier_lookup_witness:
  "cit_rate (calculate_cit [''turnover'' \<mapsto> 25000000, ''profit'' \<mapsto> 10000000] True) = 0
   \<and> company_size (calculate_cit [''turnover'' \<mapsto> 25000000, ''profit'' \<mapsto> 10000000] True) = ''Small Company''
   \<and> cit_payable (calculate_cit [''turnover'' \<mapsto> 25000000, ''profit'' \<mapsto> 10000000] True) = 0
   \<and> cit_rate (calculate_cit [''turnover'' \<mapsto> 80000000, ''profit'' \<mapsto> 10000000] True) = 20
   \<and> cit_payable (calculate_cit [''turnover'' \<mapsto> 80000000, ''profit'' \<mapsto> 10000000] True) = 2000000
   \<and> cit_rate (calculate_cit [''turnover'' \<mapsto> 80000000, ''profit'' \<mapsto> 10000000] False) = 18
   \<and> cit_payable (calculate_cit [''turnover'' \<mapsto> 80000000, ''profit'' \<mapsto> 10000000] False) = 1800000
   \<and> company_size (calculate_cit [''turnover'' \<mapsto> 150000001, ''profit'' \<mapsto> 10000000] False) = ''Large Company''"
  using cit_tier_lookup[of "[''turnover'' \<mapsto> 25000000, ''profit'' \<mapsto> 10000000]"]
    cit_tier_lookup[of "[''turnover'' \<mapsto> 80000000, ''profit'' \<mapsto> 10000000]"]
    cit_tier_lookup[of "[''turnover'' \<mapsto> 150000001, ''profit'' \<mapsto> 10000000]"]
  by (simp add: float_get_upd float_get_empty)

text \<open>
  Claim C8, as the code has it. For a profit of any sign and any turnover the tax
  payable is \<open>profit * rate\<close>, with no floor and no clamp; the net profit is
  profit - tax payable and the monthly net profit is net profit / 12. For a negative
  profit the tax payable is never above 0, and it is negative exactly when the rate of
  the tier is not 0: in the 0% tier the product is 0.
\<close>

theorem cit_payable_unclamped:
  "cit_payable (calculate_cit d use_old_law) =
      float_get d ''profit'' * fst (cit_tier use_old_law (float_get d ''turnover''))
   \<and> net_profit (calculate_cit d use_old_law) =
      float_get d ''profit'' - cit_payable (calculate_cit d use_old_law)
   \<and> monthly_net_profit (calculate_cit d use_old_law) = net_profit (calculate_cit d use_old_law) / 12
   \<and> (float_get d ''profit'' < 0 \<longrightarrow>
        cit_payable (calculate_cit d use_old_law) \<le> 0
        \<and> (cit_payable (calculate_cit d use_old_law) < 0) =
            (fst (cit_tier use_old_law (float_get d ''turnover'')) \<noteq> 0))"
proof -
  have nonneg: "0 \<le> fst (cit_tier use_old_law t)" for t
    by (simp add: cit_tier_def)
  have neg_case: "cit_payable (calculate_cit d use_old_law) \<le> 0
        \<and> (cit_payable (calculate_cit d use_old_law) < 0) =
            (fst (cit_tier use_old_law (float_get d ''turnover'')) \<noteq> 0)"
    if neg: "float_get d ''profit'' < 0"
  proof (cases "fst (cit_tier use_old_law (float_get d ''turnover'')) = 0")
    case True
    then show ?thesis by (simp add: cit_payable_eq)
  next
    case False
    with nonneg[of "float_get d ''turnover''"]
    have "0 < fst (cit_tier use_old_law (float_get d ''turnover''))" by simp
    with neg have "cit_payable (calculate_cit d use_old_law) < 0"
      by (simp only: cit_payable_eq mult_neg_pos)
    with False show ?thesis by simp
  qed
  then show ?thesis
    using cit_payable_eq[of d use_old_law] net_profit_eq[of d use_old_law]
      monthly_net_profit_eq[of d use_old_law]
    by blast
qed

theorem cit_payable_unclamped_witness:
  "float_get [''turnover'' \<mapsto> 80000000, ''profit'' \<mapsto> - 1200000] ''profit'' < 0
   \<and> fst (cit_tier True (float_get [''turnover'' \<mapsto> 80000000, ''profit'' \<mapsto> - 1200000] ''turnover'')) \<noteq> 0
   \<and> cit_payable (calculate_cit [''turnover'' \<mapsto> 80000000, ''profit'' \<mapsto> - 1200000] True) = - 240000
   \<and> cit_payable (calculate_cit [''turnover'' \<mapsto> 80000000, ''profit'' \<mapsto> - 1200000] True) < 0
   \<and> net_profit (calculate_cit [''turnover'' \<mapsto> 80000000, ''profit'' \<mapsto> - 1200000] True) = - 960000
   \<and> monthly_net_profit (calculate_cit [''turnover'' \<mapsto> 80000000, ''profit'' \<mapsto> - 1200000] True) = - 80000"
  using cit_payable_unclamped[of "[''turnover'' \<mapsto> 80000000, ''profit'' \<mapsto> - 1200000]" True]
  by (simp add: float_get_upd float_get_empty cit_tier_def)

text \<open>
  Claim C8 says that a negative profit yields a negative tax payable at every turnover.
  A turnover of 1,000 is in the 0% tier of the OLD regime: the profit - 1,200,000 is
  negative and the tax payable \<open>profit * 0.0\<close> is 0, which is not below 0.
\<close>

theorem negative_profit_counterexample:
  "float_get [''turnover'' \<mapsto> 1000, ''profit'' \<mapsto> - 1200000] ''profit'' < 0
   \<and> company_size (calculate_cit [''turnover'' \<mapsto> 1000, ''profit'' \<mapsto> - 1200000] True) = ''Small Company''
   \<and> cit_payable (calculate_cit [''turnover'' \<mapsto> 1000, ''profit'' \<mapsto> - 1200000] True) = 0
   \<and> \<not> cit_payable (calculate_cit [''turnover'' \<mapsto> 1000, ''profit'' \<mapsto> - 1200000] True) < 0"
  by (simp add: cit_fields cit_tier_def float_get_upd float_get_empty)

section \<open>The comparator: claims C4 and C7\<close>

text \<open>
  Claim C4. For the tax types PIT and CIT the comparator runs the same calculator on the
  same input under OLD and under NEW and returns both results; the tax difference is the
  new total tax minus the old one (the CIT payable for CIT), the net difference is the
  new net income (net profit for CIT) minus the old one, and the recommendation is
  "Better under NEW law" exactly when the net difference is above 0 and "Better under
  OLD law" otherwise; a net difference of exactly 0 gives "Better under OLD law".
\<close>

theorem comparator_differences:
  assumes "tax_type req = Some ''PIT'' \<or> tax_type req = Some ''CIT''"
  shows "\<exists>resp. calculate req = Inr resp
     \<and> (tax_type req = Some ''PIT'' \<longrightarrow>
           (\<exists>c. resp = PitResponse (calculate_pit (data req) True) (calculate_pit (data req) False) c)
           \<and> comparison_tax_difference resp =
               total_tax (calculate_pit (data req) False) - total_tax (calculate_pit (data req) True)
           \<and> comparison_net_difference resp =
               net_income (calculate_pit (data req) False) - net_income (calculate_pit (data req) True))
     \<and> (tax_type req = Some ''CIT'' \<longrightarrow>
           (\<exists>c. resp = CitResponse (calculate_cit (data req) True) (calculate_cit (data req) False) c)
           \<and> comparison_tax_difference resp =
               cit_payable (calculate_cit (data req) False) - cit_payable (calculate_cit (data req) True)
           \<and> comparison_net_difference resp =
               net_profit (calculate_cit (data req) False) - net_profit (calculate_cit (data req) True))
     \<and> (comparison_recommendation resp = ''Better under NEW law'') = (comparison_net_difference resp > 0)
     \<and> (comparison_recommendation resp = ''Better under OLD law'') = (\<not> comparison_net_difference resp > 0)
     \<and> (comparison_net_difference resp = 0 \<longrightarrow>
           comparison_recommendation resp = ''Better under OLD law'')"
proof -
  obtain resp where r: "calculate req = Inr resp" using calculate_returns by blast
  note rec = recommendation_strict[OF r]
  have pit: "resp = PitResponse (calculate_pit (data req) True) (calculate_pit (data req) False)
       \<lparr> tax_difference =
           total_tax (calculate_pit (data req) False) - total_tax (calculate_pit (data req) True),
         net_income_difference =
           net_income (calculate_pit (data req) False) - net_income (calculate_pit (data req) True),
         monthly_take_home_difference =
           monthly_take_home (calculate_pit (data req) False)
           - monthly_take_home (calculate_pit (data req) True),
         recommendation =
           (if net_income (calculate_pit (data req) False) - net_income (calculate_pit (data req) True) > 0
            then ''Better under NEW law'' else ''Better under OLD law'') \<rparr>"
    if "tax_type req = Some ''PIT''"
    using r calculate_pit_request[OF that] by simp
  have cit: "resp = CitResponse (calculate_cit (data req) True) (calculate_cit (data req) False)
       \<lparr> cit_tax_difference =
           cit_payable (calculate_cit (data req) False) - cit_payable (calculate_cit (data req) True),
         net_profit_difference =
           net_profit (calculate_cit (data req) False) - net_profit (calculate_cit (data req) True),
         monthly_profit_difference =
           monthly_net_profit (calculate_cit (data req) False)
           - monthly_net_profit (calculate_cit (data req) True),
         cit_recommendation =
           (if net_profit (calculate_cit (data req) False) - net_profit (calculate_cit (data req) True) > 0
            then ''Better under NEW law'' else ''Better under OLD law'') \<rparr>"
    if "tax_type req = Some ''CIT''"
  proof -
    from that have "tax_type req \<noteq> Some ''PIT''" by simp
    from r calculate_other_request[OF this] show ?thesis by simp
  qed
  have "tax_type req = Some ''PIT'' \<longrightarrow>
           (\<exists>c. resp = PitResponse (calculate_pit (data req) True) (calculate_pit (data req) False) c)
           \<and> comparison_tax_difference resp =
               total_tax (calculate_pit (data req) False) - total_tax (calculate_pit (data req) True)
           \<and> comparison_net_difference resp =
               net_income (calculate_pit (data req) False) - net_income (calculate_pit (data req) True)"
  proof
    assume p: "tax_type req = Some ''PIT''"
    show "(\<exists>c. resp = PitResponse (calculate_pit (data req) True) (calculate_pit (data req) False) c)
           \<and> comparison_tax_difference resp =
               total_tax (calculate_pit (data req) False) - total_tax (calculate_pit (data req) True)
           \<and> comparison_net_difference resp =
               net_income (calculate_pit (data req) False) - net_income (calculate_pit (data req) True)"
      by (subst (1 2 3) pit[OF p]) simp
  qed
  moreover have "tax_type req = Some ''CIT'' \<longrightarrow>
           (\<exists>c. resp = CitResponse (calculate_cit (data req) True) (calculate_cit (data req) False) c)
           \<and> comparison_tax_difference resp =
               cit_payable (calculate_cit (data req) False) - cit_payable (calculate_cit (data req) True)
           \<and> comparison_net_difference resp =
               net_profit (calculate_cit (data req) False) - net_profit (calculate_cit (data req) True)"
  proof
    assume p: "tax_type req = Some ''CIT''"
    show "(\<exists>c. resp = CitResponse (calculate_cit (data req) True) (calculate_cit (data req) False) c)
           \<and> comparison_tax_difference resp =
               cit_payable (calculate_cit (data req) False) - cit_payable (calculate_cit (data req) True)
           \<and> comparison_net_difference resp =
               net_profit (calculate_cit (data req) False) - net_profit (calculate_cit (data req) True)"
      by (subst (1 2 3) cit[OF p]) simp
  qed
  moreover have "(comparison_recommendation resp = ''Better under NEW law'') = (comparison_net_difference resp > 0)"
    "(comparison_recommendation resp = ''Better under OLD law'') = (\<not> comparison_net_difference resp > 0)"
    "comparison_net_difference resp = 0 \<longrightarrow> comparison_recommendation resp = ''Better under OLD law''"
    by (simp_all add: rec)
  ultimately show ?thesis using r by blast
qed

text \<open>
  The specification's CIT example (turnover 80,000,000, profit 10,000,000), and a PIT
  request without any field, where both regimes give a net income of 0: the tie goes to
  OLD.
\<close>

theorem comparator_differences_witness:
  "(tax_type \<lparr>tax_type = Some ''CIT'', data = [''turnover'' \<mapsto> 80000000, ''profit'' \<mapsto> 10000000]\<rparr> = Some ''PIT''
     \<or> tax_type \<lparr>tax_type = Some ''CIT'', data = [''turnover'' \<mapsto> 80000000, ''profit'' \<mapsto> 10000000]\<rparr> = Some ''CIT'')
   \<and> (\<exists>resp. calculate \<lparr>tax_type = Some ''CIT'', data = [''turnover'' \<mapsto> 80000000, ''profit'' \<mapsto> 10000000]\<rparr> = Inr resp
        \<and> comparison_tax_difference resp = - 200000
        \<and> comparison_net_difference resp = 200000
        \<and> comparison_recommendation resp = ''Better under NEW law'')
   \<and> (\<exists>resp. calculate \<lparr>tax_type = Some ''PIT'', data = Map.empty\<rparr> = Inr resp
        \<and> comparison_tax_difference resp = 0
        \<and> comparison_net_difference resp = 0
        \<and> comparison_recommendation resp = ''Better under OLD law'')"
proof -
  define c where "c = \<lparr>tax_type = Some ''CIT'', data = [''turnover'' \<mapsto> 80000000, ''profit'' \<mapsto> (10000000::real)]\<rparr>"
  define p where "p = \<lparr>tax_type = Some ''PIT'', data = (Map.empty :: fields)\<rparr>"
  have ct: "tax_type c = Some ''CIT''" and pt: "tax_type p = Some ''PIT''"
    by (simp_all add: c_def p_def)
  have cv: "cit_payable (calculate_cit (data c) False) - cit_payable (calculate_cit (data c) True) = - 200000"
    "net_profit (calculate_cit (data c) False) - net_profit (calculate_cit (data c) True) = 200000"
    by (simp_all add: c_def cit_fields cit_tier_def float_get_upd float_get_empty)
  have t: "taxable_income (calculate_pit Map.empty b) = 0" for b
    by (simp add: pit_taxable pit_cra pit_gross pit_housing HOUSING_ALLOWANCE_CAP_def float_get_empty)
  have a: "annual_paye (calculate_pit Map.empty b) = 0" for b
    by (simp add: pit_paye t PIT_BRACKETS_OLD_def PIT_BRACKETS_NEW_def calculate_progressive_tax_def)
  have pv: "total_tax (calculate_pit (data p) False) - total_tax (calculate_pit (data p) True) = 0"
    "net_income (calculate_pit (data p) False) - net_income (calculate_pit (data p) True) = 0"
    by (simp_all add: p_def pit_net pit_total pit_cgt pit_gross pit_housing a
        HOUSING_ALLOWANCE_CAP_def float_get_empty)
  from ct have "tax_type c = Some ''PIT'' \<or> tax_type c = Some ''CIT''" ..
  from comparator_differences[OF this] obtain rc where rc: "calculate c = Inr rc"
    and rc_tax: "tax_type c = Some ''CIT'' \<longrightarrow>
           (\<exists>k. rc = CitResponse (calculate_cit (data c) True) (calculate_cit (data c) False) k)
           \<and> comparison_tax_difference rc =
               cit_payable (calculate_cit (data c) False) - cit_payable (calculate_cit (data c) True)
           \<and> comparison_net_difference rc =
               net_profit (calculate_cit (data c) False) - net_profit (calculate_cit (data c) True)"
    and rc_new: "(comparison_recommendation rc = ''Better under NEW law'') = (comparison_net_difference rc > 0)"
    by (elim exE conjE)
  from rc_tax ct cv have "comparison_tax_difference rc = - 200000" "comparison_net_difference rc = 200000"
    by simp_all
  with rc rc_new have C: "\<exists>resp. calculate c = Inr resp
        \<and> comparison_tax_difference resp = - 200000
        \<and> comparison_net_difference resp = 200000
        \<and> comparison_recommendation resp = ''Better under NEW law''"
    by simp
  from pt have "tax_type p = Some ''PIT'' \<or> tax_type p = Some ''CIT''" ..
  from comparator_differences[OF this] obtain rp where rp: "calculate p = Inr rp"
    and rp_tax: "tax_type p = Some ''PIT'' \<longrightarrow>
           (\<exists>k. rp = PitResponse (calculate_pit (data p) True) (calculate_pit (data p) False) k)
           \<and> comparison_tax_difference rp =
               total_tax (calculate_pit (data p) False) - total_tax (calculate_pit (data p) True)
           \<and> comparison_net_difference rp =
               net_income (calculate_pit (data p) False) - net_income (calculate_pit (data p) True)"
    and rp_tie: "comparison_net_difference rp = 0 \<longrightarrow>
           comparison_recommendation rp = ''Better under OLD law''"
    by (elim exE conjE)
  from rp_tax pt pv have "comparison_tax_difference rp = 0" "comparison_net_difference rp = 0"
    by simp_all
  with rp rp_tie have P: "\<exists>resp. calculate p = Inr resp
        \<and> comparison_tax_difference resp = 0
        \<and> comparison_net_difference resp = 0
        \<and> comparison_recommendation resp = ''Better under OLD law''"
    by simp
  from C P ct show ?thesis unfolding c_def p_def by simp
qed

text \<open>
  Claim C7, as the code has it. A request whose discriminator is not PIT (CIT, any
  other string, or none) gets the complete CIT comparison, the same response as with
  the discriminator CIT; it does not fail with \<open>UnknownTaxType\<close>.
\<close>

theorem non_pit_request_runs_cit:
  assumes "tax_type req \<noteq> Some ''PIT''"
  shows "calculate req = calculate (req\<lparr>tax_type := Some ''CIT''\<rparr>)
     \<and> calculate req \<noteq> Inl UnknownTaxType
     \<and> (\<exists>c. calculate req =
           Inr (CitResponse (calculate_cit (data req) True) (calculate_cit (data req) False) c))"
proof -
  have "tax_type (req\<lparr>tax_type := Some ''CIT''\<rparr>) \<noteq> Some ''PIT''" by simp
  from calculate_other_request[OF this] calculate_other_request[OF assms]
  show ?thesis by simp
qed

theorem non_pit_request_runs_cit_witness:
  "tax_type \<lparr>tax_type = Some ''VAT'', data = [''turnover'' \<mapsto> 80000000, ''profit'' \<mapsto> 10000000]\<rparr> \<noteq> Some ''PIT''
   \<and> calculate \<lparr>tax_type = Some ''VAT'', data = [''turnover'' \<mapsto> 80000000, ''profit'' \<mapsto> 10000000]\<rparr>
       = calculate \<lparr>tax_type = Some ''CIT'', data = [''turnover'' \<mapsto> 80000000, ''profit'' \<mapsto> 10000000]\<rparr>
   \<and> calculate \<lparr>tax_type = Some ''VAT'', data = [''turnover'' \<mapsto> 80000000, ''profit'' \<mapsto> 10000000]\<rparr>
       \<noteq> Inl UnknownTaxType"
proof -
  define v where "v = \<lparr>tax_type = Some ''VAT'', data = [''turnover'' \<mapsto> 80000000, ''profit'' \<mapsto> (10000000::real)]\<rparr>"
  define c where "c = \<lparr>tax_type = Some ''CIT'', data = [''turnover'' \<mapsto> 80000000, ''profit'' \<mapsto> (10000000::real)]\<rparr>"
  have n: "tax_type v \<noteq> Some ''PIT''" by (simp add: v_def)
  have e: "v\<lparr>tax_type := Some ''CIT''\<rparr> = c" by (simp add: v_def c_def)
  from non_pit_request_runs_cit[OF n] have "calculate v = calculate c"
    and "calculate v \<noteq> Inl UnknownTaxType"
    unfolding e by blast+
  with n show ?thesis unfolding v_def c_def by blast
qed

text \<open>
  The discriminator \<open>VAT\<close> is neither PIT nor CIT. The handler takes its
  \<^verbatim>\<open>else\<close> branch and answers with the CIT comparison of the two regimes.
\<close>

theorem unknown_tax_type_counterexample:
  "tax_type \<lparr>tax_type = Some ''VAT'', data = [''turnover'' \<mapsto> 80000000, ''profit'' \<mapsto> 10000000]\<rparr> \<noteq> Some ''PIT''
   \<and> tax_type \<lparr>tax_type = Some ''VAT'', data = [''turnover'' \<mapsto> 80000000, ''profit'' \<mapsto> 10000000]\<rparr> \<noteq> Some ''CIT''
   \<and> calculate \<lparr>tax_type = Some ''VAT'', data = [''turnover'' \<mapsto> 80000000, ''profit'' \<mapsto> 10000000]\<rparr>
       \<noteq> Inl UnknownTaxType
   \<and> map_sum id comparison_recommendation
        (calculate \<lparr>tax_type = Some ''VAT'', data = [''turnover'' \<mapsto> 80000000, ''profit'' \<mapsto> 10000000]\<rparr>)
       = Inr ''Better under NEW law''
   \<and> map_sum id comparison_tax_difference
        (calculate \<lparr>tax_type = Some ''VAT'', data = [''turnover'' \<mapsto> 80000000, ''profit'' \<mapsto> 10000000]\<rparr>)
       = Inr (- 200000)"
proof -
  let ?r = "\<lparr>tax_type = Some ''VAT'', data = [''turnover'' \<mapsto> 80000000, ''profit'' \<mapsto> (10000000::real)]\<rparr>"
  have n: "tax_type ?r \<noteq> Some ''PIT''" by simp
  have cv: "cit_payable (calculate_cit (data ?r) True) = 2000000"
    "cit_payable (calculate_cit (data ?r) False) = 1800000"
    "net_profit (calculate_cit (data ?r) True) = 8000000"
    "net_profit (calculate_cit (data ?r) False) = 8200000"
    by (simp_all add: cit_fields cit_tier_def float_get_upd float_get_empty)
  show ?thesis
    unfolding calculate_other_request[OF n] cv by simp
qed

end
